theory Spec2Isabelle
  imports Main
begin

section \<open>Tokens\<close>

text \<open>
  Modelled from the spec: the enum \<^verbatim>\<open>TokenKind\<close> of \<^verbatim>\<open>token.js\<close> is not
  among the sources. Its members are the ones \<^verbatim>\<open>parse.ts\<close> and
  \<^verbatim>\<open>token-stream.ts\<close> name (\<^verbatim>\<open>TokenKind.EOF\<close>, \<^verbatim>\<open>TokenKind.Fn\<close>, ...),
  which are the kinds the spec lists for the input contract. A member
  \<^verbatim>\<open>TokenKind.X\<close> is written \<open>TokenKind_X\<close>.
\<close>

datatype TokenKind =
    TokenKind_EOF
  | TokenKind_Identifier
  | TokenKind_NumberLiteral
  | TokenKind_Fn
  | TokenKind_Var
  | TokenKind_If
  | TokenKind_Else
  | TokenKind_While
  | TokenKind_Do
  | TokenKind_OpenParen
  | TokenKind_CloseParen
  | TokenKind_OpenBrace
  | TokenKind_CloseBrace
  | TokenKind_OpenBracket
  | TokenKind_CloseBracket
  | TokenKind_Comma
  | TokenKind_SemiColon
  | TokenKind_Plus
  | TokenKind_Minus
  | TokenKind_Asterisk
  | TokenKind_Slash
  | TokenKind_Percent
  | TokenKind_Lt
  | TokenKind_Lte
  | TokenKind_Gt
  | TokenKind_Gte
  | TokenKind_Eq
  | TokenKind_Eq2
  | TokenKind_Not
  | TokenKind_NotEq
  | TokenKind_And2
  | TokenKind_Or2

text \<open>
  A source location \<^verbatim>\<open>{ line, column }\<close>. Real tokens carry 1-based positions, the
  end-of-stream sentinel carries \<open>-1\<close> in both fields, so the fields are integers.
\<close>

record Loc =
  line :: int
  column :: int

text \<open>
  Modelled from the spec: the type \<^verbatim>\<open>Token\<close> of \<^verbatim>\<open>token.js\<close> is not among the
  sources. The spec gives it a kind, an optional text payload and a location; the sources
  read them as \<^verbatim>\<open>.kind\<close>, \<^verbatim>\<open>.value\<close> and \<^verbatim>\<open>.loc\<close>. The payload field is named
  \<open>val\<close> here. It is optional: \<^verbatim>\<open>s.getToken().value!\<close> asserts its presence for the
  type checker only, so an absent payload flows into the syntax tree unchanged.
\<close>

record Token =
  kind :: TokenKind
  val :: "string option"
  loc :: Loc

text \<open>
  Modelled from the spec: the constructor function \<^verbatim>\<open>TOKEN(kind, loc)\<close> of
  \<^verbatim>\<open>token.js\<close> is not among the sources. The stream calls it with a kind and a
  location only, to build the end-of-stream sentinel, which has no payload.
\<close>

definition TOKEN :: "TokenKind \<Rightarrow> Loc \<Rightarrow> Token" where
  "TOKEN k l = \<lparr>kind = k, val = None, loc = l\<rparr>"

text \<open>The reverse mapping \<^verbatim>\<open>TokenKind[k]\<close> of the enum: the name of the member.\<close>

fun TokenKind_name :: "TokenKind \<Rightarrow> string" where
  "TokenKind_name TokenKind_EOF = ''EOF''"
| "TokenKind_name TokenKind_Identifier = ''Identifier''"
| "TokenKind_name TokenKind_NumberLiteral = ''NumberLiteral''"
| "TokenKind_name TokenKind_Fn = ''Fn''"
| "TokenKind_name TokenKind_Var = ''Var''"
| "TokenKind_name TokenKind_If = ''If''"
| "TokenKind_name TokenKind_Else = ''Else''"
| "TokenKind_name TokenKind_While = ''While''"
| "TokenKind_name TokenKind_Do = ''Do''"
| "TokenKind_name TokenKind_OpenParen = ''OpenParen''"
| "TokenKind_name TokenKind_CloseParen = ''CloseParen''"
| "TokenKind_name TokenKind_OpenBrace = ''OpenBrace''"
| "TokenKind_name TokenKind_CloseBrace = ''CloseBrace''"
| "TokenKind_name TokenKind_OpenBracket = ''OpenBracket''"
| "TokenKind_name TokenKind_CloseBracket = ''CloseBracket''"
| "TokenKind_name TokenKind_Comma = ''Comma''"
| "TokenKind_name TokenKind_SemiColon = ''SemiColon''"
| "TokenKind_name TokenKind_Plus = ''Plus''"
| "TokenKind_name TokenKind_Minus = ''Minus''"
| "TokenKind_name TokenKind_Asterisk = ''Asterisk''"
| "TokenKind_name TokenKind_Slash = ''Slash''"
| "TokenKind_name TokenKind_Percent = ''Percent''"
| "TokenKind_name TokenKind_Lt = ''Lt''"
| "TokenKind_name TokenKind_Lte = ''Lte''"
| "TokenKind_name TokenKind_Gt = ''Gt''"
| "TokenKind_name TokenKind_Gte = ''Gte''"
| "TokenKind_name TokenKind_Eq = ''Eq''"
| "TokenKind_name TokenKind_Eq2 = ''Eq2''"
| "TokenKind_name TokenKind_Not = ''Not''"
| "TokenKind_name TokenKind_NotEq = ''NotEq''"
| "TokenKind_name TokenKind_And2 = ''And2''"
| "TokenKind_name TokenKind_Or2 = ''Or2''"

section \<open>Errors\<close>

text \<open>
  Two kinds of exception leave the parser. \<open>SyntaxError\<close> is what the helper
  \<^verbatim>\<open>error(message, loc)\<close> builds: it carries a message and a location. \<open>Error\<close> is
  the plain JavaScript \<^verbatim>\<open>new Error(message)\<close>, which carries a message only.
\<close>

datatype err =
    SyntaxError string Loc
  | Error string

text \<open>
  Modelled from the spec: the helper \<^verbatim>\<open>error\<close> of \<^verbatim>\<open>util/error.js\<close> is not among
  the sources. By the spec the error the stream raises is a syntax error that carries a
  human-readable message and the location of the unexpected token; these are the two
  values the stream passes to the helper.
\<close>

definition error :: "string \<Rightarrow> Loc \<Rightarrow> err" where
  "error message l = SyntaxError message l"

section \<open>TokenStream\<close>

text \<open>
  The class \<^verbatim>\<open>TokenStream\<close>: the token sequence, the cursor and the cached current
  token (the private field \<^verbatim>\<open>_token\<close>, here \<open>token\<close>). A method is a function of
  the stream state. A method that returns nothing and cannot throw returns the new
  state; a method that can throw returns the outcome together with the state the
  object is left in; a method that only reads returns its value.
\<close>

record TokenStream =
  source :: "Token list"
  index :: nat
  token :: Token

definition EOF_TOKEN :: Token where
  "EOF_TOKEN = TOKEN TokenKind_EOF \<lparr>line = - 1, column = - 1\<rparr>"

definition eof :: "TokenStream \<Rightarrow> bool" where
  "eof s = (index s \<ge> length (source s))"

definition load :: "TokenStream \<Rightarrow> TokenStream" where
  "load s =
     (if eof s then s\<lparr>token := TOKEN TokenKind_EOF \<lparr>line = - 1, column = - 1\<rparr>\<rparr>
      else s\<lparr>token := source s ! index s\<rparr>)"

text \<open>
  The constructor sets the sequence and the cursor and calls \<^verbatim>\<open>load\<close>, which assigns
  \<^verbatim>\<open>_token\<close> in either branch; the value the field holds before that is never read.
\<close>

definition TokenStream_new :: "Token list \<Rightarrow> TokenStream" where
  "TokenStream_new src = load \<lparr>source = src, index = 0, token = EOF_TOKEN\<rparr>"

definition getToken :: "TokenStream \<Rightarrow> Token" where
  "getToken s =
     (if eof s then TOKEN TokenKind_EOF \<lparr>line = - 1, column = - 1\<rparr>
      else token s)"

definition getKind :: "TokenStream \<Rightarrow> TokenKind" where
  "getKind s = kind (getToken s)"

text \<open>The method \<^verbatim>\<open>next()\<close>.\<close>

definition nextToken :: "TokenStream \<Rightarrow> TokenStream" where
  "nextToken s = load (if \<not> eof s then s\<lparr>index := index s + 1\<rparr> else s)"

text \<open>
  \<^verbatim>\<open>lookahead(offset)\<close> returns the token and the state of the stream after the
  call. The offset is a non-negative integer.
\<close>

definition lookahead :: "TokenStream \<Rightarrow> nat \<Rightarrow> Token \<times> TokenStream" where
  "lookahead s offset =
     (if index s + offset < length (source s) then (source s ! (index s + offset), s)
      else (TOKEN TokenKind_EOF \<lparr>line = - 1, column = - 1\<rparr>, s))"

definition expect :: "TokenStream \<Rightarrow> TokenKind \<Rightarrow> (err + unit) \<times> TokenStream" where
  "expect s k =
     (if getKind s \<noteq> k
      then (Inl (error (''unexpected token: '' @ TokenKind_name (getKind s)) (loc (getToken s))), s)
      else (Inr (), s))"

definition nextWith :: "TokenStream \<Rightarrow> TokenKind \<Rightarrow> (err + unit) \<times> TokenStream" where
  "nextWith s k =
     (case expect s k of
        (Inl e, s') \<Rightarrow> (Inl e, s')
      | (Inr _, s') \<Rightarrow> (Inr (), nextToken s'))"

section \<open>Syntax tree\<close>

text \<open>
  Modelled from the spec: the node classes of \<^verbatim>\<open>node.js\<close> are not among the
  sources. Each constructor takes the arguments of the \<^verbatim>\<open>new\<close> expression that
  builds the node in \<^verbatim>\<open>parse.ts\<close>, in that order, the location last
  (\<^verbatim>\<open>Assign\<close>, which \<^verbatim>\<open>parse.ts\<close> imports and never builds, has the fields the
  spec gives it). The modes are the string literals of the source (\<^verbatim>\<open>'mul'\<close>,
  \<^verbatim>\<open>'not'\<close>, \<^verbatim>\<open>'do-while'\<close>, ...). A name is the payload of an identifier token.
  A number literal holds the payload of its token, the text that \<^verbatim>\<open>Number(source)\<close>
  converts: the converted value is a function of that text.
\<close>

datatype BinaryMode =
    BinaryMode_mul | BinaryMode_div | BinaryMode_rem | BinaryMode_add | BinaryMode_sub
  | BinaryMode_lt | BinaryMode_lte | BinaryMode_gt | BinaryMode_gte
  | BinaryMode_eq | BinaryMode_neq | BinaryMode_and | BinaryMode_or

datatype UnaryMode = UnaryMode_not | UnaryMode_plus | UnaryMode_minus

datatype WhileMode = WhileMode_while | WhileMode_do_while

datatype Node =
    Unit_Node "Node list" Loc
  | FunctionDecl "string option" "string option list" "Node list" Loc
  | VariableDecl "string option" "Node option" Loc
  | Block "Node list" Loc
  | If_Node Node Node "Node option" Loc
  | While_Node WhileMode Node "Node list" Loc
  | Assign "string option" Node Loc
  | Binary BinaryMode Node Node Loc
  | Unary UnaryMode Node Loc
  | NumberLiteral "string option" Loc
  | Reference "string option" Loc

text \<open>
  A parsing function either throws (\<open>Inl\<close>) or returns its value and the stream as it
  left it (\<open>Inr\<close>).
\<close>

type_synonym 'a result = "err + ('a \<times> TokenStream)"

section \<open>Parameters and blocks\<close>

text \<open>
  The body of the \<^verbatim>\<open>while\<close> loop of \<^verbatim>\<open>parseParams\<close>, with the list
  \<^verbatim>\<open>items\<close> passed along. Each round consumes an identifier, so the loop ends.
\<close>

function parseParams_loop :: "TokenStream \<Rightarrow> string option list \<Rightarrow> string option list result" where
  "parseParams_loop s items =
     (if getKind s \<noteq> TokenKind_CloseParen then
        (case (if length items > 0 then nextWith s TokenKind_Comma else (Inr (), s)) of
           (Inl e, _) \<Rightarrow> Inl e
         | (Inr _, s1) \<Rightarrow>
             (case expect s1 TokenKind_Identifier of
                (Inl e, _) \<Rightarrow> Inl e
              | (Inr _, s2) \<Rightarrow>
                  (let name = val (getToken s2);
                       s3 = nextToken s2
                   in parseParams_loop s3 (items @ [name]))))
      else Inr (items, s))"
  by pat_completeness auto

definition parseParams :: "TokenStream \<Rightarrow> string option list result" where
  "parseParams s =
     (case nextWith s TokenKind_OpenParen of
        (Inl e, _) \<Rightarrow> Inl e
      | (Inr _, s1) \<Rightarrow>
          (case parseParams_loop s1 [] of
             Inl e \<Rightarrow> Inl e
           | Inr (items, s2) \<Rightarrow>
               (case nextWith s2 TokenKind_CloseParen of
                  (Inl e, _) \<Rightarrow> Inl e
                | (Inr _, s3) \<Rightarrow> Inr (items, s3))))"

text \<open>\<^verbatim>\<open>parseStep\<close> is a stub: its body is \<^verbatim>\<open>throw new Error('todo')\<close>.\<close>

definition parseStep :: "TokenStream \<Rightarrow> Node result" where
  "parseStep s = Inl (Error ''todo'')"

text \<open>
  The \<^verbatim>\<open>while\<close> loop of \<^verbatim>\<open>parseBlock\<close>. A round that returned would run the loop
  again on the stream \<^verbatim>\<open>parseStep\<close> left; as \<^verbatim>\<open>parseStep\<close> always throws, no round
  returns.
\<close>

function parseBlock_loop :: "TokenStream \<Rightarrow> Node list \<Rightarrow> Node list result" where
  "parseBlock_loop s steps =
     (if getKind s \<noteq> TokenKind_CloseBrace then
        (case parseStep s of
           Inl e \<Rightarrow> Inl e
         | Inr (step, s1) \<Rightarrow> parseBlock_loop s1 (steps @ [step]))
      else Inr (steps, s))"
  by pat_completeness auto

definition parseBlock :: "TokenStream \<Rightarrow> Node list result" where
  "parseBlock s =
     (case nextWith s TokenKind_OpenBrace of
        (Inl e, _) \<Rightarrow> Inl e
      | (Inr _, s1) \<Rightarrow>
          (case parseBlock_loop s1 [] of
             Inl e \<Rightarrow> Inl e
           | Inr (steps, s2) \<Rightarrow>
               (case nextWith s2 TokenKind_CloseBrace of
                  (Inl e, _) \<Rightarrow> Inl e
                | (Inr _, s3) \<Rightarrow> Inr (steps, s3))))"

section \<open>Pratt parsing\<close>

text \<open>
  The union types \<^verbatim>\<open>PrefixToken\<close>, \<^verbatim>\<open>InfixToken\<close> and \<^verbatim>\<open>PostfixToken\<close> select
  members of \<^verbatim>\<open>TokenKind\<close>; each is a datatype with its embedding into \<open>TokenKind\<close>.
  \<^verbatim>\<open>OpInfo\<close> is the tagged union of the three kinds of table entry.
\<close>

datatype PrefixToken = PrefixToken_Not | PrefixToken_Plus | PrefixToken_Minus

fun PrefixToken_kind :: "PrefixToken \<Rightarrow> TokenKind" where
  "PrefixToken_kind PrefixToken_Not = TokenKind_Not"
| "PrefixToken_kind PrefixToken_Plus = TokenKind_Plus"
| "PrefixToken_kind PrefixToken_Minus = TokenKind_Minus"

datatype InfixToken =
    InfixToken_Asterisk | InfixToken_Slash | InfixToken_Percent
  | InfixToken_Plus | InfixToken_Minus
  | InfixToken_Lt | InfixToken_Lte | InfixToken_Gt | InfixToken_Gte
  | InfixToken_Eq2 | InfixToken_NotEq | InfixToken_And2 | InfixToken_Or2

fun InfixToken_kind :: "InfixToken \<Rightarrow> TokenKind" where
  "InfixToken_kind InfixToken_Asterisk = TokenKind_Asterisk"
| "InfixToken_kind InfixToken_Slash = TokenKind_Slash"
| "InfixToken_kind InfixToken_Percent = TokenKind_Percent"
| "InfixToken_kind InfixToken_Plus = TokenKind_Plus"
| "InfixToken_kind InfixToken_Minus = TokenKind_Minus"
| "InfixToken_kind InfixToken_Lt = TokenKind_Lt"
| "InfixToken_kind InfixToken_Lte = TokenKind_Lte"
| "InfixToken_kind InfixToken_Gt = TokenKind_Gt"
| "InfixToken_kind InfixToken_Gte = TokenKind_Gte"
| "InfixToken_kind InfixToken_Eq2 = TokenKind_Eq2"
| "InfixToken_kind InfixToken_NotEq = TokenKind_NotEq"
| "InfixToken_kind InfixToken_And2 = TokenKind_And2"
| "InfixToken_kind InfixToken_Or2 = TokenKind_Or2"

datatype PostfixToken = PostfixToken_OpenBracket | PostfixToken_OpenParen

datatype OpInfo =
    PrefixInfo PrefixToken nat
  | InfixInfo InfixToken nat nat
  | PostfixInfo PostfixToken nat

definition operators :: "OpInfo list" where
  "operators =
    [ PostfixInfo PostfixToken_OpenParen 90,
      PostfixInfo PostfixToken_OpenBracket 90,
      PrefixInfo PrefixToken_Not 80,
      PrefixInfo PrefixToken_Plus 80,
      PrefixInfo PrefixToken_Minus 80,
      InfixInfo InfixToken_Asterisk 70 71,
      InfixInfo InfixToken_Slash 70 71,
      InfixInfo InfixToken_Percent 70 71,
      InfixInfo InfixToken_Plus 60 61,
      InfixInfo InfixToken_Minus 60 61,
      InfixInfo InfixToken_Lt 50 51,
      InfixInfo InfixToken_Lte 50 51,
      InfixInfo InfixToken_Gt 50 51,
      InfixInfo InfixToken_Gte 50 51,
      InfixInfo InfixToken_Eq2 40 41,
      InfixInfo InfixToken_NotEq 40 41,
      InfixInfo InfixToken_And2 30 31,
      InfixInfo InfixToken_Or2 20 21 ]"

text \<open>
  The predicates of the two \<^verbatim>\<open>operators.find\<close> calls, and the calls themselves. The
  type guard of the predicate makes the result a prefix (an infix) entry or
  \<^verbatim>\<open>undefined\<close>, so the result is the fields of such an entry, or \<open>None\<close>.
\<close>

fun isPrefix :: "TokenKind \<Rightarrow> OpInfo \<Rightarrow> bool" where
  "isPrefix k (PrefixInfo t bp) = (PrefixToken_kind t = k)"
| "isPrefix k _ = False"

fun isInfix :: "TokenKind \<Rightarrow> OpInfo \<Rightarrow> bool" where
  "isInfix k (InfixInfo t lbp rbp) = (InfixToken_kind t = k)"
| "isInfix k _ = False"

definition findPrefix :: "TokenKind \<Rightarrow> (PrefixToken \<times> nat) option" where
  "findPrefix k =
     (case List.find (isPrefix k) operators of
        Some (PrefixInfo t bp) \<Rightarrow> Some (t, bp)
      | _ \<Rightarrow> None)"

definition findInfix :: "TokenKind \<Rightarrow> (InfixToken \<times> nat \<times> nat) option" where
  "findInfix k =
     (case List.find (isInfix k) operators of
        Some (InfixInfo t lbp rbp) \<Rightarrow> Some (t, lbp, rbp)
      | _ \<Rightarrow> None)"

text \<open>The \<^verbatim>\<open>switch\<close> statements of \<^verbatim>\<open>parsePrefix\<close> and \<^verbatim>\<open>parseInfix\<close>.\<close>

fun unaryMode :: "PrefixToken \<Rightarrow> UnaryMode" where
  "unaryMode PrefixToken_Not = UnaryMode_not"
| "unaryMode PrefixToken_Plus = UnaryMode_plus"
| "unaryMode PrefixToken_Minus = UnaryMode_minus"

fun binaryMode :: "InfixToken \<Rightarrow> BinaryMode" where
  "binaryMode InfixToken_Asterisk = BinaryMode_mul"
| "binaryMode InfixToken_Slash = BinaryMode_div"
| "binaryMode InfixToken_Percent = BinaryMode_rem"
| "binaryMode InfixToken_Plus = BinaryMode_add"
| "binaryMode InfixToken_Minus = BinaryMode_sub"
| "binaryMode InfixToken_Lt = BinaryMode_lt"
| "binaryMode InfixToken_Lte = BinaryMode_lte"
| "binaryMode InfixToken_Gt = BinaryMode_gt"
| "binaryMode InfixToken_Gte = BinaryMode_gte"
| "binaryMode InfixToken_Eq2 = BinaryMode_eq"
| "binaryMode InfixToken_NotEq = BinaryMode_neq"
| "binaryMode InfixToken_And2 = BinaryMode_and"
| "binaryMode InfixToken_Or2 = BinaryMode_or"

text \<open>
  The expression parser. \<open>parsePratt_loop\<close> is the \<^verbatim>\<open>while (true)\<close> loop of
  \<^verbatim>\<open>parsePratt\<close>, with the variable \<^verbatim>\<open>left\<close> passed along; \<^verbatim>\<open>parsePrefix\<close> and
  \<^verbatim>\<open>parseInfix\<close> take the fields of the table entry \<^verbatim>\<open>info\<close>.
\<close>

function parseExpr :: "TokenStream \<Rightarrow> Node result"
  and parseCond :: "TokenStream \<Rightarrow> Node result"
  and parseIf :: "TokenStream \<Rightarrow> Node result"
  and parsePratt :: "TokenStream \<Rightarrow> nat \<Rightarrow> Node result"
  and parsePratt_loop :: "TokenStream \<Rightarrow> Node \<Rightarrow> nat \<Rightarrow> Node result"
  and parsePrefix :: "TokenStream \<Rightarrow> PrefixToken \<Rightarrow> nat \<Rightarrow> Node result"
  and parseInfix :: "TokenStream \<Rightarrow> Node \<Rightarrow> InfixToken \<Rightarrow> nat \<Rightarrow> nat \<Rightarrow> Node result"
  and parseAtom :: "TokenStream \<Rightarrow> Node result"
where
  "parseExpr s = parsePratt s 0"
| "parseCond s =
     (case nextWith s TokenKind_OpenParen of
        (Inl e, _) \<Rightarrow> Inl e
      | (Inr _, s1) \<Rightarrow>
          (case parseExpr s1 of
             Inl e \<Rightarrow> Inl e
           | Inr (expr, s2) \<Rightarrow>
               (case nextWith s2 TokenKind_CloseParen of
                  (Inl e, _) \<Rightarrow> Inl e
                | (Inr _, s3) \<Rightarrow> Inr (expr, s3))))"
| "parseIf s =
     (let l = loc (getToken s) in
      case nextWith s TokenKind_If of
        (Inl e, _) \<Rightarrow> Inl e
      | (Inr _, s1) \<Rightarrow>
          (case parseCond s1 of
             Inl e \<Rightarrow> Inl e
           | Inr (cond, s2) \<Rightarrow>
               (let thenLoc = loc (getToken s2) in
                case parseBlock s2 of
                  Inl e \<Rightarrow> Inl e
                | Inr (thenSteps, s3) \<Rightarrow>
                    (let thenBlock = Block thenSteps thenLoc in
                     if getKind s3 = TokenKind_Else then
                       (let elseLoc = loc (getToken s3);
                            s4 = nextToken s3
                        in case parseBlock s4 of
                             Inl e \<Rightarrow> Inl e
                           | Inr (elseSteps, s5) \<Rightarrow>
                               Inr (If_Node cond thenBlock (Some (Block elseSteps elseLoc)) l, s5))
                     else Inr (If_Node cond thenBlock None l, s3)))))"
| "parsePratt s minBp =
     (let k = getKind s in
      case findPrefix k of
        Some (t, bp) \<Rightarrow>
          (case parsePrefix s t bp of
             Inl e \<Rightarrow> Inl e
           | Inr (left, s1) \<Rightarrow> parsePratt_loop s1 left minBp)
      | None \<Rightarrow>
          (case parseAtom s of
             Inl e \<Rightarrow> Inl e
           | Inr (left, s1) \<Rightarrow> parsePratt_loop s1 left minBp))"
| "parsePratt_loop s left minBp =
     (let k = getKind s in
      case findInfix k of
        Some (t, lbp, rbp) \<Rightarrow>
          (if lbp < minBp then Inr (left, s)
           else
             (case parseInfix s left t lbp rbp of
                Inl e \<Rightarrow> Inl e
              | Inr (left', s1) \<Rightarrow> parsePratt_loop s1 left' minBp))
      | None \<Rightarrow> Inr (left, s))"
| "parsePrefix s t bp =
     (let l = loc (getToken s);
          s1 = nextToken s
      in case parsePratt s1 bp of
           Inl e \<Rightarrow> Inl e
         | Inr (right, s2) \<Rightarrow> Inr (Unary (unaryMode t) right l, s2))"
| "parseInfix s left t lbp rbp =
     (let l = loc (getToken s);
          s1 = nextToken s
      in case parsePratt s1 rbp of
           Inl e \<Rightarrow> Inl e
         | Inr (right, s2) \<Rightarrow> Inr (Binary (binaryMode t) left right l, s2))"
| "parseAtom s =
     (let l = loc (getToken s) in
      if getKind s = TokenKind_NumberLiteral then
        (let source = val (getToken s);
             s1 = nextToken s
         in Inr (NumberLiteral source l, s1))
      else if getKind s = TokenKind_Identifier then
        (let name = val (getToken s);
             s1 = nextToken s
         in Inr (Reference name l, s1))
      else if getKind s = TokenKind_If then parseIf s
      else if getKind s = TokenKind_OpenParen then
        (let s1 = nextToken s in
         case parseExpr s1 of
           Inl e \<Rightarrow> Inl e
         | Inr (expr, s2) \<Rightarrow>
             (case nextWith s2 TokenKind_CloseParen of
                (Inl e, _) \<Rightarrow> Inl e
              | (Inr _, s3) \<Rightarrow> Inr (expr, s3)))
      else Inl (Error (''unexpected token: '' @ TokenKind_name (getKind s))))"
  by pat_completeness auto

section \<open>Declarations\<close>

text \<open>
  In \<^verbatim>\<open>parseVariableDecl\<close> the variable \<^verbatim>\<open>body\<close> stays \<^verbatim>\<open>undefined\<close> (\<open>None\<close>)
  when no \<^verbatim>\<open>=\<close> follows the name.
\<close>

definition parseFunctionDecl :: "TokenStream \<Rightarrow> Node result" where
  "parseFunctionDecl s =
     (let l = loc (getToken s) in
      case nextWith s TokenKind_Fn of
        (Inl e, _) \<Rightarrow> Inl e
      | (Inr _, s1) \<Rightarrow>
          (case expect s1 TokenKind_Identifier of
             (Inl e, _) \<Rightarrow> Inl e
           | (Inr _, s2) \<Rightarrow>
               (let name = val (getToken s2);
                    s3 = nextToken s2
                in case parseParams s3 of
                     Inl e \<Rightarrow> Inl e
                   | Inr (params, s4) \<Rightarrow>
                       (case parseBlock s4 of
                          Inl e \<Rightarrow> Inl e
                        | Inr (body, s5) \<Rightarrow> Inr (FunctionDecl name params body l, s5)))))"

definition parseVariableDecl :: "TokenStream \<Rightarrow> Node result" where
  "parseVariableDecl s =
     (let l = loc (getToken s) in
      case nextWith s TokenKind_Var of
        (Inl e, _) \<Rightarrow> Inl e
      | (Inr _, s1) \<Rightarrow>
          (case expect s1 TokenKind_Identifier of
             (Inl e, _) \<Rightarrow> Inl e
           | (Inr _, s2) \<Rightarrow>
               (let name = val (getToken s2);
                    s3 = nextToken s2
                in case (if getKind s3 = TokenKind_Eq
                         then (case parseExpr (nextToken s3) of
                                 Inl e \<Rightarrow> Inl e
                               | Inr (body, s4) \<Rightarrow> Inr (Some body, s4))
                         else Inr (None, s3)) of
                     Inl e \<Rightarrow> Inl e
                   | Inr (body, s5) \<Rightarrow>
                       (case nextWith s5 TokenKind_SemiColon of
                          (Inl e, _) \<Rightarrow> Inl e
                        | (Inr _, s6) \<Rightarrow> Inr (VariableDecl name body l, s6)))))"

definition parseWhile :: "TokenStream \<Rightarrow> Node result" where
  "parseWhile s =
     (let l = loc (getToken s) in
      if getKind s = TokenKind_While then
        (case nextWith s TokenKind_While of
           (Inl e, _) \<Rightarrow> Inl e
         | (Inr _, s1) \<Rightarrow>
             (case parseCond s1 of
                Inl e \<Rightarrow> Inl e
              | Inr (cond, s2) \<Rightarrow>
                  (case parseBlock s2 of
                     Inl e \<Rightarrow> Inl e
                   | Inr (body, s3) \<Rightarrow> Inr (While_Node WhileMode_while cond body l, s3))))
      else
        (case nextWith s TokenKind_Do of
           (Inl e, _) \<Rightarrow> Inl e
         | (Inr _, s1) \<Rightarrow>
             (case parseBlock s1 of
                Inl e \<Rightarrow> Inl e
              | Inr (body, s2) \<Rightarrow>
                  (case nextWith s2 TokenKind_While of
                     (Inl e, _) \<Rightarrow> Inl e
                   | (Inr _, s3) \<Rightarrow>
                       (case parseCond s3 of
                          Inl e \<Rightarrow> Inl e
                        | Inr (cond, s4) \<Rightarrow>
                            Inr (While_Node WhileMode_do_while cond body l, s4))))))"

section \<open>Top level\<close>

text \<open>
  The \<^verbatim>\<open>while\<close> loop of \<^verbatim>\<open>parse\<close>, with the list \<^verbatim>\<open>decls\<close> passed along. The
  \<^verbatim>\<open>switch\<close> has the cases \<^verbatim>\<open>Fn\<close> and \<^verbatim>\<open>Var\<close> and no default: for any other kind the
  body does nothing and the loop tests the same token again. The loop need not end, so
  the result is an option: \<open>None\<close> is a run that never returns.
\<close>

partial_function (option) parse_loop :: "TokenStream \<Rightarrow> Node list \<Rightarrow> (err + Node) option" where
  "parse_loop s decls =
     (if getKind s \<noteq> TokenKind_EOF then
        (if getKind s = TokenKind_Fn then
           (case parseFunctionDecl s of
              Inl e \<Rightarrow> Some (Inl e)
            | Inr (d, s1) \<Rightarrow> parse_loop s1 (decls @ [d]))
         else if getKind s = TokenKind_Var then
           (case parseVariableDecl s of
              Inl e \<Rightarrow> Some (Inl e)
            | Inr (d, s1) \<Rightarrow> parse_loop s1 (decls @ [d]))
         else parse_loop s decls)
      else Some (Inr (Unit_Node decls \<lparr>line = 1, column = 1\<rparr>)))"

text \<open>
  Modelled from the spec: the class \<^verbatim>\<open>Scanner\<close> of \<^verbatim>\<open>scanner.js\<close> is not among the
  sources. \<^verbatim>\<open>parse\<close> reads it through the interface \<^verbatim>\<open>ITokenStream\<close> only, and by
  the spec the parser consumes a finished, finite sequence of tokens. So \<open>parse\<close> takes
  the token sequence of the input and reads it through \<open>TokenStream\<close>, the
  implementation of that interface.
\<close>

definition parse :: "Token list \<Rightarrow> (err + Node) option" where
  "parse input = parse_loop (TokenStream_new input) []"

section \<open>Notions used in the statements\<close>

text \<open>
  Tokens for examples, as a scanner produces them on line 1 of an input: an identifier
  with its name as payload, and a token without payload, each at a column.
\<close>

definition ident :: "string \<Rightarrow> int \<Rightarrow> Token" where
  "ident name c = \<lparr>kind = TokenKind_Identifier, val = Some name, loc = \<lparr>line = 1, column = c\<rparr>\<rparr>"

definition punct :: "TokenKind \<Rightarrow> int \<Rightarrow> Token" where
  "punct k c = \<lparr>kind = k, val = None, loc = \<lparr>line = 1, column = c\<rparr>\<rparr>"

text \<open>
  A call of one method of the interface, and the state it leaves the stream in. A run
  is a stream built by the constructor followed by any sequence of calls: the states
  a stream can be in.
\<close>

datatype StreamOp =
    Op_getToken
  | Op_getKind
  | Op_next
  | Op_lookahead nat
  | Op_expect TokenKind
  | Op_nextWith TokenKind

fun apply_op :: "TokenStream \<Rightarrow> StreamOp \<Rightarrow> TokenStream" where
  "apply_op s Op_getToken = s"
| "apply_op s Op_getKind = s"
| "apply_op s Op_next = nextToken s"
| "apply_op s (Op_lookahead offset) = snd (lookahead s offset)"
| "apply_op s (Op_expect k) = snd (expect s k)"
| "apply_op s (Op_nextWith k) = snd (nextWith s k)"

definition run_ops :: "Token list \<Rightarrow> StreamOp list \<Rightarrow> TokenStream" where
  "run_ops src ops = foldl apply_op (TokenStream_new src) ops"

text \<open>
  What the constructor establishes and every method keeps: the cursor is within the
  sequence or just past it, and the cached token is the one \<^verbatim>\<open>load\<close> assigns.
\<close>

definition stream_inv :: "TokenStream \<Rightarrow> bool" where
  "stream_inv s \<longleftrightarrow>
     index s \<le> length (source s) \<and>
     token s = (if eof s then EOF_TOKEN else source s ! index s)"

text \<open>The number of tokens from the cursor to the end of the sequence.\<close>

definition remaining :: "TokenStream \<Rightarrow> nat" where
  "remaining s = length (source s) - index s"

text \<open>
  The binding powers the table \<open>operators\<close> gives an operator token (0 for a token
  with no entry; every operator token has one).
\<close>

definition lbp_of :: "InfixToken \<Rightarrow> nat" where
  "lbp_of t = (case findInfix (InfixToken_kind t) of Some (_, lbp, _) \<Rightarrow> lbp | None \<Rightarrow> 0)"

definition rbp_of :: "InfixToken \<Rightarrow> nat" where
  "rbp_of t = (case findInfix (InfixToken_kind t) of Some (_, _, rbp) \<Rightarrow> rbp | None \<Rightarrow> 0)"

definition bp_of :: "PrefixToken \<Rightarrow> nat" where
  "bp_of t = (case findPrefix (PrefixToken_kind t) of Some (_, bp) \<Rightarrow> bp | None \<Rightarrow> 0)"

text \<open>The stream over \<open>toks\<close> with the cursor at position \<open>i\<close>.\<close>

definition stream_at :: "Token list \<Rightarrow> nat \<Rightarrow> TokenStream" where
  "stream_at toks i = load \<lparr>source = toks, index = i, token = EOF_TOKEN\<rparr>"

section \<open>Termination\<close>

text \<open>
  How the methods of the stream move the cursor.
\<close>

lemma source_load [simp]: "source (load s) = source s"
  by (simp add: load_def)

lemma index_load [simp]: "index (load s) = index s"
  by (simp add: load_def)

lemma remaining_load [simp]: "remaining (load s) = remaining s"
  by (simp add: remaining_def)

lemma remaining_nextToken_le: "remaining (nextToken s) \<le> remaining s"
  by (auto simp: nextToken_def remaining_def)

lemma remaining_nextToken_less: "\<not> eof s \<Longrightarrow> remaining (nextToken s) < remaining s"
  by (auto simp: nextToken_def remaining_def eof_def)

lemma nextToken_eof: "eof s \<Longrightarrow> remaining (nextToken s) = remaining s"
  by (simp add: nextToken_def)

lemma getKind_not_eof: "getKind s \<noteq> TokenKind_EOF \<Longrightarrow> \<not> eof s"
  by (auto simp: getKind_def getToken_def TOKEN_def)

lemma eof_getKind: "eof s \<Longrightarrow> getKind s = TokenKind_EOF"
  by (simp add: getKind_def getToken_def TOKEN_def)

lemma remaining_next_kind:
  "getKind s \<noteq> TokenKind_EOF \<Longrightarrow> remaining (nextToken s) < remaining s"
  by (rule remaining_nextToken_less) (rule getKind_not_eof)

lemma expect_Inr: "expect s k = (Inr u, s') \<Longrightarrow> s' = s \<and> getKind s = k"
  by (auto simp: expect_def split: if_splits)

lemma nextWith_Inr: "nextWith s k = (Inr u, s') \<Longrightarrow> s' = nextToken s \<and> getKind s = k"
  by (auto simp: nextWith_def expect_def split: if_splits)

lemma nextWith_remaining_le: "nextWith s k = (Inr u, s') \<Longrightarrow> remaining s' \<le> remaining s"
  by (auto dest!: nextWith_Inr simp: remaining_nextToken_le)

lemma nextWith_remaining_less:
  "nextWith s k = (Inr u, s') \<Longrightarrow> k \<noteq> TokenKind_EOF \<Longrightarrow> remaining s' < remaining s"
  by (auto dest!: nextWith_Inr intro!: remaining_nextToken_less getKind_not_eof)

text \<open>
  Each round of the parameter loop consumes an identifier.
\<close>

termination parseParams_loop
  apply (relation "measure (\<lambda>(s, items). remaining s)")
  apply simp
  apply (auto split: if_splits dest!: nextWith_Inr [OF sym] expect_Inr [OF sym])
   apply (rule less_le_trans [OF remaining_next_kind remaining_nextToken_le]; simp)
  apply (rule remaining_next_kind; simp)
  done

text \<open>
  No round of the block loop returns, so the loop body runs at most once.
\<close>

termination parseBlock_loop
  by (relation "{}") (simp_all add: parseStep_def)

text \<open>No operator is found at the end of the stream.\<close>

lemma findPrefix_EOF: "findPrefix TokenKind_EOF = None"
  by (simp add: findPrefix_def operators_def)

lemma findInfix_EOF: "findInfix TokenKind_EOF = None"
  by (simp add: findInfix_def operators_def)

lemma findPrefix_not_eof: "findPrefix (getKind s) = Some x \<Longrightarrow> \<not> eof s"
  using findPrefix_EOF by (auto dest!: eof_getKind)

lemma findInfix_not_eof: "findInfix (getKind s) = Some x \<Longrightarrow> \<not> eof s"
  using findInfix_EOF by (auto dest!: eof_getKind)

text \<open>
  Termination: no function moves the cursor backwards, and every recursive call is made
  either on a stream with fewer tokens left or from a function later in the call order.
\<close>

lemma parseBlock_remaining: "parseBlock s = Inr (x, s') \<Longrightarrow> remaining s' \<le> remaining s"
  by (auto simp: parseBlock_def parseStep_def split: prod.splits sum.splits if_splits
      dest!: nextWith_remaining_le)

lemma parse_remaining_partial:
  "parseExpr_parseCond_parseIf_parsePratt_parsePratt_loop_parsePrefix_parseInfix_parseAtom_dom (Inl (Inl (Inl s1))) \<Longrightarrow>
     (\<forall>x s'. parseExpr s1 = Inr (x, s') \<longrightarrow> remaining s' \<le> remaining s1)"
  "parseExpr_parseCond_parseIf_parsePratt_parsePratt_loop_parsePrefix_parseInfix_parseAtom_dom (Inl (Inl (Inr s2))) \<Longrightarrow>
     (\<forall>x s'. parseCond s2 = Inr (x, s') \<longrightarrow> remaining s' \<le> remaining s2)"
  "parseExpr_parseCond_parseIf_parsePratt_parsePratt_loop_parsePrefix_parseInfix_parseAtom_dom (Inl (Inr (Inl s3))) \<Longrightarrow>
     (\<forall>x s'. parseIf s3 = Inr (x, s') \<longrightarrow> remaining s' \<le> remaining s3)"
  "parseExpr_parseCond_parseIf_parsePratt_parsePratt_loop_parsePrefix_parseInfix_parseAtom_dom (Inl (Inr (Inr (s4, minBp4)))) \<Longrightarrow>
     (\<forall>x s'. parsePratt s4 minBp4 = Inr (x, s') \<longrightarrow> remaining s' \<le> remaining s4)"
  "parseExpr_parseCond_parseIf_parsePratt_parsePratt_loop_parsePrefix_parseInfix_parseAtom_dom (Inr (Inl (Inl (s5, left5, minBp5)))) \<Longrightarrow>
     (\<forall>x s'. parsePratt_loop s5 left5 minBp5 = Inr (x, s') \<longrightarrow> remaining s' \<le> remaining s5)"
  "parseExpr_parseCond_parseIf_parsePratt_parsePratt_loop_parsePrefix_parseInfix_parseAtom_dom (Inr (Inl (Inr (s6, t6, bp6)))) \<Longrightarrow>
     (\<forall>x s'. parsePrefix s6 t6 bp6 = Inr (x, s') \<longrightarrow> remaining s' \<le> remaining (nextToken s6))"
  "parseExpr_parseCond_parseIf_parsePratt_parsePratt_loop_parsePrefix_parseInfix_parseAtom_dom (Inr (Inr (Inl (s7, left7, t7, lbp7, rbp7)))) \<Longrightarrow>
     (\<forall>x s'. parseInfix s7 left7 t7 lbp7 rbp7 = Inr (x, s') \<longrightarrow> remaining s' \<le> remaining (nextToken s7))"
  "parseExpr_parseCond_parseIf_parsePratt_parsePratt_loop_parsePrefix_parseInfix_parseAtom_dom (Inr (Inr (Inr s8))) \<Longrightarrow>
     (\<forall>x s'. parseAtom s8 = Inr (x, s') \<longrightarrow> remaining s' \<le> remaining s8)"
proof (induct rule: parseExpr_parseCond_parseIf_parsePratt_parsePratt_loop_parsePrefix_parseInfix_parseAtom.pinduct)
  case (1 s)
  then show ?case by (simp add: parseExpr.psimps)
next
  case (2 s)
  show ?case
  proof (intro allI impI)
    fix x s'
    assume r: "parseCond s = Inr (x, s')"
    from r "2.hyps"(1) obtain u1 sa sb where
      a: "nextWith s TokenKind_OpenParen = (Inr u1, sa)"
      and b: "parseExpr sa = Inr (x, sb)"
      and c: "nextWith sb TokenKind_CloseParen = (Inr (), s')"
      by (auto simp: parseCond.psimps split: prod.splits sum.splits)
    from "2.hyps"(2) [OF a [symmetric] refl] b have "remaining sb \<le> remaining sa" by blast
    with nextWith_remaining_le [OF a] nextWith_remaining_le [OF c]
    show "remaining s' \<le> remaining s" by simp
  qed
next
  case (3 s)
  show ?case
  proof (intro allI impI)
    fix x s'
    assume r: "parseIf s = Inr (x, s')"
    from r "3.hyps"(1) obtain u1 sa c sb st sc where
      a: "nextWith s TokenKind_If = (Inr u1, sa)"
      and b: "parseCond sa = Inr (c, sb)"
      and d: "parseBlock sb = Inr (st, sc)"
      and e: "remaining s' \<le> remaining sc"
      by (auto simp: parseIf.psimps Let_def split: prod.splits sum.splits if_splits
          dest!: parseBlock_remaining [of "nextToken _"]
          intro: order_trans [OF _ remaining_nextToken_le])
    from "3.hyps"(2) [OF refl a [symmetric] refl] b have "remaining sb \<le> remaining sa" by blast
    with nextWith_remaining_le [OF a] parseBlock_remaining [OF d] e
    show "remaining s' \<le> remaining s" by simp
  qed
next
  case (4 s minBp)
  show ?case
  proof (intro allI impI)
    fix x s'
    assume r: "parsePratt s minBp = Inr (x, s')"
    show "remaining s' \<le> remaining s"
    proof (cases "findPrefix (getKind s)")
      case None
      with r "4.hyps"(1) obtain left sa where
        a: "parseAtom s = Inr (left, sa)" and b: "parsePratt_loop sa left minBp = Inr (x, s')"
        by (auto simp: parsePratt.psimps split: prod.splits sum.splits)
      from "4.hyps"(2) [OF refl None] a have "remaining sa \<le> remaining s" by blast
      moreover from "4.hyps"(3) [OF refl None a refl] b have "remaining s' \<le> remaining sa"
        by blast
      ultimately show ?thesis by simp
    next
      case (Some tb)
      obtain t bp where tb: "tb = (t, bp)" by (cases tb)
      from Some tb r "4.hyps"(1) obtain left sa where
        a: "parsePrefix s t bp = Inr (left, sa)" and b: "parsePratt_loop sa left minBp = Inr (x, s')"
        by (auto simp: parsePratt.psimps split: prod.splits sum.splits)
      from "4.hyps"(4) [OF refl Some tb [symmetric]] a
      have "remaining sa \<le> remaining (nextToken s)" by blast
      then have "remaining sa \<le> remaining s"
        using remaining_nextToken_le [of s] by simp
      moreover from "4.hyps"(5) [OF refl Some tb [symmetric] a refl] b
      have "remaining s' \<le> remaining sa" by blast
      ultimately show ?thesis by simp
    qed
  qed
next
  case (5 s left minBp)
  show ?case
  proof (intro allI impI)
    fix x s'
    assume r: "parsePratt_loop s left minBp = Inr (x, s')"
    show "remaining s' \<le> remaining s"
    proof (cases "findInfix (getKind s)")
      case None
      with r "5.hyps"(1) show ?thesis by (simp add: parsePratt_loop.psimps)
    next
      case (Some tlr)
      obtain t lbp rbp where tlr: "tlr = (t, lbp, rbp)" by (cases tlr)
      show ?thesis
      proof (cases "lbp < minBp")
        case True
        with Some tlr r "5.hyps"(1) show ?thesis by (simp add: parsePratt_loop.psimps)
      next
        case False
        with Some tlr r "5.hyps"(1) obtain left' sa where
          a: "parseInfix s left t lbp rbp = Inr (left', sa)"
          and b: "parsePratt_loop sa left' minBp = Inr (x, s')"
          by (auto simp: parsePratt_loop.psimps split: prod.splits sum.splits)
        have tlr': "(t, lbp, rbp) = tlr" "(lbp, rbp) = (lbp, rbp)" using tlr by simp_all
        from "5.hyps"(2) [OF refl Some tlr' False] a
        have "remaining sa \<le> remaining (nextToken s)" by blast
        then have "remaining sa \<le> remaining s"
          using remaining_nextToken_le [of s] by simp
        moreover from "5.hyps"(3) [OF refl Some tlr' False a refl] b
        have "remaining s' \<le> remaining sa" by blast
        ultimately show ?thesis by simp
      qed
    qed
  qed
next
  case (6 s t bp)
  show ?case
  proof (intro allI impI)
    fix x s'
    assume r: "parsePrefix s t bp = Inr (x, s')"
    with "6.hyps"(1) obtain right where "parsePratt (nextToken s) bp = Inr (right, s')"
      by (auto simp: parsePrefix.psimps Let_def split: prod.splits sum.splits)
    with "6.hyps"(2) [OF refl refl] show "remaining s' \<le> remaining (nextToken s)" by blast
  qed
next
  case (7 s left t lbp rbp)
  show ?case
  proof (intro allI impI)
    fix x s'
    assume r: "parseInfix s left t lbp rbp = Inr (x, s')"
    with "7.hyps"(1) obtain right where "parsePratt (nextToken s) rbp = Inr (right, s')"
      by (auto simp: parseInfix.psimps Let_def split: prod.splits sum.splits)
    with "7.hyps"(2) [OF refl refl] show "remaining s' \<le> remaining (nextToken s)" by blast
  qed
next
  case (8 s)
  show ?case
  proof (intro allI impI)
    fix x s'
    assume r: "parseAtom s = Inr (x, s')"
    consider (num) "getKind s = TokenKind_NumberLiteral"
      | (ident) "getKind s \<noteq> TokenKind_NumberLiteral" "getKind s = TokenKind_Identifier"
      | (ifk) "getKind s \<noteq> TokenKind_NumberLiteral" "getKind s \<noteq> TokenKind_Identifier"
          "getKind s = TokenKind_If"
      | (paren) "getKind s \<noteq> TokenKind_NumberLiteral" "getKind s \<noteq> TokenKind_Identifier"
          "getKind s \<noteq> TokenKind_If" "getKind s = TokenKind_OpenParen"
      | (other) "getKind s \<noteq> TokenKind_NumberLiteral" "getKind s \<noteq> TokenKind_Identifier"
          "getKind s \<noteq> TokenKind_If" "getKind s \<noteq> TokenKind_OpenParen"
      by blast
    then show "remaining s' \<le> remaining s"
    proof cases
      case num
      with r "8.hyps"(1) show ?thesis
        by (auto simp: parseAtom.psimps Let_def remaining_nextToken_le)
    next
      case ident
      with r "8.hyps"(1) show ?thesis
        by (auto simp: parseAtom.psimps Let_def remaining_nextToken_le)
    next
      case ifk
      with r "8.hyps"(1) have "parseIf s = Inr (x, s')"
        by (simp add: parseAtom.psimps Let_def)
      with "8.hyps"(2) [OF refl ifk] show ?thesis by blast
    next
      case paren
      with r "8.hyps"(1) obtain sb where
        b: "parseExpr (nextToken s) = Inr (x, sb)"
        and c: "nextWith sb TokenKind_CloseParen = (Inr (), s')"
        by (auto simp: parseAtom.psimps Let_def split: prod.splits sum.splits)
      from "8.hyps"(3) [OF refl paren refl] b have "remaining sb \<le> remaining (nextToken s)"
        by blast
      with nextWith_remaining_le [OF c] remaining_nextToken_le [of s] show ?thesis by simp
    next
      case other
      with r "8.hyps"(1) show ?thesis by (simp add: parseAtom.psimps Let_def)
    qed
  qed
qed

text \<open>
  The measure: the number of tokens left, then the place of the function in the call
  order. \<open>parsePrefix\<close> and \<open>parseInfix\<close> are called on a stream that is not at
  its end, where their call of \<open>nextToken\<close> consumes a token; at the end of the
  stream they rank above \<open>parsePratt\<close>, which then stops at \<open>parseAtom\<close>.
\<close>

termination parseExpr
  apply (relation "measures [case_sum (case_sum (case_sum remaining remaining) (case_sum remaining (\<lambda>(s, _). remaining s))) (case_sum (case_sum (\<lambda>(s, _). remaining s) (\<lambda>(s, _). remaining s)) (case_sum (\<lambda>(s, _). remaining s) remaining)),
     case_sum (case_sum (case_sum (\<lambda>_. 6) (\<lambda>_. 1)) (case_sum (\<lambda>_. 2) (\<lambda>_. 5))) (case_sum (case_sum (\<lambda>_. 4) (\<lambda>(s, _). if eof s then 7 else 1)) (case_sum (\<lambda>(s, _). if eof s then 7 else 1) (\<lambda>_. 3)))]")
  apply simp_all
  subgoal by (auto dest!: nextWith_remaining_less [OF sym])
  subgoal by (auto dest!: nextWith_remaining_less [OF sym])
  subgoal for s x b xa y
    using parse_remaining_partial(8) [of s] by (auto simp: le_less)
  subgoal by (rule findPrefix_not_eof)
  subgoal for s x x2 xa y b xb ya
    using parse_remaining_partial(6) [of s xa y] remaining_nextToken_le [of s]
    by (auto simp: le_less)
  subgoal by (rule findInfix_not_eof)
  subgoal for s left minBp x x2 xa y xb ya b xc yb
    using parse_remaining_partial(7) [of s left xa xb ya]
      remaining_nextToken_less [OF findInfix_not_eof, of s x2]
    by auto
  subgoal for s by (cases "eof s") (simp_all add: remaining_nextToken_less nextToken_eof)
  subgoal for s by (cases "eof s") (simp_all add: remaining_nextToken_less nextToken_eof)
  subgoal by (rule remaining_next_kind) simp
  done

section \<open>Properties of the token stream\<close>

lemma stream_inv_new: "stream_inv (TokenStream_new src)"
  by (simp add: stream_inv_def TokenStream_new_def load_def eof_def EOF_TOKEN_def)

lemma stream_inv_nextToken: "stream_inv s \<Longrightarrow> stream_inv (nextToken s)"
  by (auto simp: stream_inv_def nextToken_def load_def eof_def EOF_TOKEN_def)

lemma snd_expect [simp]: "snd (expect s k) = s"
  by (simp add: expect_def)

lemma snd_lookahead [simp]: "snd (lookahead s offset) = s"
  by (simp add: lookahead_def)

lemma snd_nextWith: "snd (nextWith s k) = (if getKind s = k then nextToken s else s)"
  by (simp add: nextWith_def expect_def)

lemma stream_inv_apply_op: "stream_inv s \<Longrightarrow> stream_inv (apply_op s op)"
  by (cases op) (simp_all add: snd_nextWith stream_inv_nextToken)

lemma stream_inv_foldl: "stream_inv s \<Longrightarrow> stream_inv (foldl apply_op s ops)"
  by (induction ops arbitrary: s) (simp_all add: stream_inv_apply_op)

lemma stream_inv_run_ops: "stream_inv (run_ops src ops)"
  by (simp add: run_ops_def stream_inv_foldl stream_inv_new)

lemma source_nextToken [simp]: "source (nextToken s) = source s"
  by (simp add: nextToken_def)

lemma index_nextToken: "index (nextToken s) = (if eof s then index s else index s + 1)"
  by (simp add: nextToken_def)

lemma source_apply_op [simp]: "source (apply_op s op) = source s"
  by (cases op) (simp_all add: snd_nextWith)

lemma index_apply_op: "index s \<le> index (apply_op s op)"
  by (cases op) (simp_all add: snd_nextWith index_nextToken)

lemma source_foldl [simp]: "source (foldl apply_op s ops) = source s"
  by (induction ops arbitrary: s) simp_all

lemma index_foldl: "index s \<le> index (foldl apply_op s ops)"
proof (induction ops arbitrary: s)
  case Nil
  show ?case by simp
next
  case (Cons op ops)
  have "index s \<le> index (apply_op s op)" by (rule index_apply_op)
  also have "\<dots> \<le> index (foldl apply_op (apply_op s op) ops)" by (rule Cons.IH)
  finally show ?case by simp
qed

lemma source_run_ops [simp]: "source (run_ops src ops) = src"
  by (simp add: run_ops_def TokenStream_new_def)

lemma nextToken_at_end: "stream_inv s \<Longrightarrow> eof s \<Longrightarrow> nextToken s = s"
  by (simp add: stream_inv_def nextToken_def load_def EOF_TOKEN_def)

text \<open>
  C7. For every stream state \<open>s\<close> and every offset \<open>k\<close>, \<open>lookahead\<close> leaves the whole
  state of the stream, the cursor included, as it was; a second call with the same \<open>k\<close>
  returns the same token; and when the cursor plus \<open>k\<close> is at or past the end of the
  sequence, the call returns the end-of-stream sentinel, a value and not an exception.
\<close>

theorem lookahead_frame:
  "snd (lookahead s k) = s \<and>
   index (snd (lookahead s k)) = index s \<and>
   fst (lookahead (snd (lookahead s k)) k) = fst (lookahead s k) \<and>
   (length (source s) \<le> index s + k \<longrightarrow>
      fst (lookahead s k) = TOKEN TokenKind_EOF \<lparr>line = - 1, column = - 1\<rparr>)"
  by (simp add: lookahead_def)

text \<open>An instance past the end: a stream of one token, looked ahead by two.\<close>

theorem lookahead_frame_witness:
  "length (source (TokenStream_new [ident ''a'' 1])) \<le> index (TokenStream_new [ident ''a'' 1]) + 2 \<and>
   snd (lookahead (TokenStream_new [ident ''a'' 1]) 2) = TokenStream_new [ident ''a'' 1] \<and>
   index (snd (lookahead (TokenStream_new [ident ''a'' 1]) 2)) = 0 \<and>
   fst (lookahead (TokenStream_new [ident ''a'' 1]) 2) =
     \<lparr>kind = TokenKind_EOF, val = None, loc = \<lparr>line = - 1, column = - 1\<rparr>\<rparr>"
  using lookahead_frame [of "TokenStream_new [ident ''a'' 1]" 2]
  by (simp add: TokenStream_new_def load_def eof_def TOKEN_def)

text \<open>
  C8, as stated, fails on the empty stream: its current token is the end-of-stream
  sentinel, so \<open>nextWith\<close> with the kind \<open>EOF\<close> finds the kinds equal and does not
  throw, yet the cursor stays at 0 instead of moving forward by one.
\<close>

theorem nextWith_at_end_counterexample:
  "getKind (TokenStream_new []) = TokenKind_EOF \<and>
   fst (nextWith (TokenStream_new []) TokenKind_EOF) = Inr () \<and>
   index (TokenStream_new []) = 0 \<and>
   index (snd (nextWith (TokenStream_new []) TokenKind_EOF)) \<noteq> index (TokenStream_new []) + 1"
  by (simp add: nextWith_def expect_def getKind_def getToken_def eof_def TokenStream_new_def
      load_def nextToken_def TOKEN_def)

text \<open>
  C8, amended. For every stream state, \<open>nextWith\<close> on a current token whose kind
  differs from the requested one raises a syntax error, carrying the message naming
  the kind of the current token and its location, and leaves the stream, the cursor
  included, as it was. When the kinds are equal it does what \<open>expect\<close> followed by
  \<open>nextToken\<close> does: \<open>expect\<close> returns without throwing and leaves the stream as it
  was, and the cursor moves forward by one when it is before the end of the sequence
  and stays where it is when it is at the end (where the matching kind is \<open>EOF\<close>).
\<close>

theorem nextWith_checked_advance:
  "(getKind s \<noteq> k \<longrightarrow>
      nextWith s k =
        (Inl (SyntaxError (''unexpected token: '' @ TokenKind_name (getKind s))
                (loc (getToken s))), s) \<and>
      index (snd (nextWith s k)) = index s) \<and>
   (getKind s = k \<longrightarrow>
      expect s k = (Inr (), s) \<and>
      nextWith s k = (Inr (), nextToken (snd (expect s k))) \<and>
      index (snd (nextWith s k)) =
        (if index s < length (source s) then index s + 1 else index s))"
  by (simp add: nextWith_def expect_def error_def index_nextToken eof_def)

text \<open>
  Both cases on the stream of the one token \<^verbatim>\<open>a\<close>: asked for \<open>Fn\<close> it raises the
  error and stays at 0, asked for \<open>Identifier\<close> it moves to 1.
\<close>

theorem nextWith_checked_advance_witness:
  "getKind (TokenStream_new [ident ''a'' 1]) \<noteq> TokenKind_Fn \<and>
   fst (nextWith (TokenStream_new [ident ''a'' 1]) TokenKind_Fn) =
     Inl (SyntaxError ''unexpected token: Identifier'' \<lparr>line = 1, column = 1\<rparr>) \<and>
   index (snd (nextWith (TokenStream_new [ident ''a'' 1]) TokenKind_Fn)) = 0 \<and>
   getKind (TokenStream_new [ident ''a'' 1]) = TokenKind_Identifier \<and>
   fst (nextWith (TokenStream_new [ident ''a'' 1]) TokenKind_Identifier) = Inr () \<and>
   index (snd (nextWith (TokenStream_new [ident ''a'' 1]) TokenKind_Identifier)) = 1"
  using nextWith_checked_advance [of "TokenStream_new [ident ''a'' 1]" TokenKind_Fn]
    nextWith_checked_advance [of "TokenStream_new [ident ''a'' 1]" TokenKind_Identifier]
  by (simp add: TokenStream_new_def load_def eof_def getKind_def getToken_def nextToken_def
      ident_def)

text \<open>
  C9. For every state a stream can be in (the constructor followed by any sequence of
  calls \<open>ops\<close>), \<open>nextToken\<close> moves the cursor forward by exactly one when the cursor is
  before the end of the sequence, and leaves the whole state as it was when the cursor
  is at the end; it is a total function, so it never throws. Hence along any run the
  cursor never decreases (any further calls \<open>ops'\<close> leave it at least where it was)
  and it stays between 0 and the length of the sequence.
\<close>

theorem next_cursor:
  "(index (run_ops src ops) < length src \<longrightarrow>
      index (nextToken (run_ops src ops)) = index (run_ops src ops) + 1) \<and>
   (index (run_ops src ops) = length src \<longrightarrow>
      nextToken (run_ops src ops) = run_ops src ops) \<and>
   index (run_ops src ops) \<le> index (run_ops src (ops @ ops')) \<and>
   0 \<le> index (run_ops src ops) \<and> index (run_ops src ops) \<le> length src"
proof -
  have inv: "stream_inv (run_ops src ops)" by (rule stream_inv_run_ops)
  have a: "index (run_ops src ops) < length src \<longrightarrow>
      index (nextToken (run_ops src ops)) = index (run_ops src ops) + 1"
    by (simp add: index_nextToken eof_def)
  have b: "index (run_ops src ops) = length src \<longrightarrow>
      nextToken (run_ops src ops) = run_ops src ops"
    using nextToken_at_end [OF inv] by (simp add: eof_def)
  have c: "index (run_ops src ops) \<le> index (run_ops src (ops @ ops'))"
    by (simp add: run_ops_def index_foldl)
  have d: "index (run_ops src ops) \<le> length src"
    using inv by (simp add: stream_inv_def)
  from a b c d show ?thesis by simp
qed

text \<open>
  On the stream of the one token \<^verbatim>\<open>a\<close>: before the end (no call made yet) the
  cursor moves from 0 to 1; at the end (after one \<^verbatim>\<open>next()\<close>) it stays at 1.
\<close>

theorem next_cursor_witness:
  "index (run_ops [ident ''a'' 1] []) < length [ident ''a'' 1] \<and>
   index (run_ops [ident ''a'' 1] []) = 0 \<and>
   index (nextToken (run_ops [ident ''a'' 1] [])) = 1 \<and>
   index (run_ops [ident ''a'' 1] [Op_next]) = length [ident ''a'' 1] \<and>
   nextToken (run_ops [ident ''a'' 1] [Op_next]) = run_ops [ident ''a'' 1] [Op_next]"
  using next_cursor [of "[ident ''a'' 1]" "[]" "[]"]
    next_cursor [of "[ident ''a'' 1]" "[Op_next]" "[]"]
  by (simp add: run_ops_def TokenStream_new_def load_def eof_def nextToken_def)

text \<open>
  C10. For every state a stream can be in, \<open>getToken\<close> returns the token that
  \<open>lookahead\<close> returns for the offset 0: the token at the cursor when the cursor is
  before the end of the sequence, and an end-of-stream token with the location
  \<open>(-1, -1)\<close> when the cursor is at or past the end.
\<close>

theorem getToken_lookahead_0:
  "getToken (run_ops src ops) = fst (lookahead (run_ops src ops) 0) \<and>
   (index (run_ops src ops) < length src \<longrightarrow>
      getToken (run_ops src ops) = src ! index (run_ops src ops)) \<and>
   (length src \<le> index (run_ops src ops) \<longrightarrow>
      kind (getToken (run_ops src ops)) = TokenKind_EOF \<and>
      loc (getToken (run_ops src ops)) = \<lparr>line = - 1, column = - 1\<rparr>)"
  using stream_inv_run_ops [of src ops]
  by (auto simp: stream_inv_def getToken_def lookahead_def eof_def TOKEN_def)

text \<open>
  On the stream of the one token \<^verbatim>\<open>a\<close>: before any call the current token is
  \<^verbatim>\<open>a\<close>; after one \<^verbatim>\<open>next()\<close> it is the sentinel.
\<close>

theorem getToken_lookahead_0_witness:
  "index (run_ops [ident ''a'' 1] []) < length [ident ''a'' 1] \<and>
   getToken (run_ops [ident ''a'' 1] []) = ident ''a'' 1 \<and>
   fst (lookahead (run_ops [ident ''a'' 1] []) 0) = ident ''a'' 1 \<and>
   length [ident ''a'' 1] \<le> index (run_ops [ident ''a'' 1] [Op_next]) \<and>
   kind (getToken (run_ops [ident ''a'' 1] [Op_next])) = TokenKind_EOF \<and>
   loc (getToken (run_ops [ident ''a'' 1] [Op_next])) = \<lparr>line = - 1, column = - 1\<rparr>"
  using getToken_lookahead_0 [of "[ident ''a'' 1]" "[]"]
    getToken_lookahead_0 [of "[ident ''a'' 1]" "[Op_next]"]
  by (simp add: run_ops_def TokenStream_new_def load_def eof_def nextToken_def getToken_def
      lookahead_def TOKEN_def)

section \<open>Properties of the expression parser\<close>

text \<open>What the two searches of the table find.\<close>

lemma findInfix_kind: "findInfix (InfixToken_kind t) = Some (t, lbp_of t, rbp_of t)"
  by (cases t) (simp_all add: lbp_of_def rbp_of_def findInfix_def operators_def)

lemma rbp_of_lbp_of: "rbp_of t = lbp_of t + 1"
  by (cases t) (simp_all add: lbp_of_def rbp_of_def findInfix_def operators_def)

lemma lbp_of_le: "lbp_of t \<le> 70"
  by (cases t) (simp_all add: lbp_of_def findInfix_def operators_def)


lemma findPrefix_kind: "findPrefix (PrefixToken_kind t) = Some (t, bp_of t)"
  by (cases t) (simp_all add: bp_of_def findPrefix_def operators_def)

lemma bp_of_80: "bp_of t = 80"
  by (cases t) (simp_all add: bp_of_def findPrefix_def operators_def)

lemma findPrefix_Identifier: "findPrefix TokenKind_Identifier = None"
  by (simp add: findPrefix_def operators_def)

lemma findInfix_Identifier: "findInfix TokenKind_Identifier = None"
  by (simp add: findInfix_def operators_def)

text \<open>Single steps of the expression parser.\<close>

lemma parseAtom_Identifier:
  "getKind s = TokenKind_Identifier \<Longrightarrow>
   parseAtom s = Inr (Reference (val (getToken s)) (loc (getToken s)), nextToken s)"
  by simp

lemma parsePratt_no_prefix:
  "findPrefix (getKind s) = None \<Longrightarrow> parseAtom s = Inr (left, s1) \<Longrightarrow>
   parsePratt s minBp = parsePratt_loop s1 left minBp"
  by simp

lemma parsePratt_prefix:
  "findPrefix (getKind s) = Some (t, bp) \<Longrightarrow> parsePratt (nextToken s) bp = Inr (right, s1) \<Longrightarrow>
   parsePratt s minBp = parsePratt_loop s1 (Unary (unaryMode t) right (loc (getToken s))) minBp"
  by simp

lemma parsePratt_loop_none:
  "findInfix (getKind s) = None \<Longrightarrow> parsePratt_loop s left minBp = Inr (left, s)"
  by simp

lemma parsePratt_loop_low:
  "findInfix (getKind s) = Some (t, lbp, rbp) \<Longrightarrow> lbp < minBp \<Longrightarrow>
   parsePratt_loop s left minBp = Inr (left, s)"
  by simp

lemma parsePratt_loop_step:
  "findInfix (getKind s) = Some (t, lbp, rbp) \<Longrightarrow> \<not> lbp < minBp \<Longrightarrow>
   parsePratt (nextToken s) rbp = Inr (right, s1) \<Longrightarrow>
   parsePratt_loop s left minBp =
     parsePratt_loop s1 (Binary (binaryMode t) left right (loc (getToken s))) minBp"
  by simp

lemma TokenStream_new_stream_at: "TokenStream_new toks = stream_at toks 0"
  by (simp add: TokenStream_new_def stream_at_def)

lemma nextToken_stream_at:
  "i < length toks \<Longrightarrow> nextToken (stream_at toks i) = stream_at toks (Suc i)"
  by (simp add: stream_at_def nextToken_def load_def eof_def)

lemma getToken_stream_at: "i < length toks \<Longrightarrow> getToken (stream_at toks i) = toks ! i"
  by (simp add: stream_at_def getToken_def load_def eof_def)

lemma getKind_stream_at: "i < length toks \<Longrightarrow> getKind (stream_at toks i) = kind (toks ! i)"
  by (simp add: getKind_def getToken_stream_at)

lemma getKind_stream_at_end: "length toks \<le> i \<Longrightarrow> getKind (stream_at toks i) = TokenKind_EOF"
  by (simp add: stream_at_def getKind_def getToken_def load_def eof_def TOKEN_def)

lemma stream_at_end:
  "length toks \<le> i \<Longrightarrow> stream_at toks i = \<lparr>source = toks, index = i, token = EOF_TOKEN\<rparr>"
  by (simp add: stream_at_def load_def eof_def EOF_TOKEN_def)

lemma parsePratt_Identifier:
  assumes i: "i < length toks" and k: "kind (toks ! i) = TokenKind_Identifier"
  shows "parsePratt (stream_at toks i) minBp =
    parsePratt_loop (stream_at toks (Suc i)) (Reference (val (toks ! i)) (loc (toks ! i))) minBp"
proof -
  have g: "getKind (stream_at toks i) = TokenKind_Identifier"
    using i k by (simp add: getKind_stream_at)
  have a: "parseAtom (stream_at toks i) =
      Inr (Reference (val (toks ! i)) (loc (toks ! i)), stream_at toks (Suc i))"
    using parseAtom_Identifier [OF g] i by (simp add: getToken_stream_at nextToken_stream_at)
  show ?thesis
    by (rule parsePratt_no_prefix [OF _ a]) (simp add: g findPrefix_Identifier)
qed

lemma parsePratt_operand:
  assumes i: "i < length toks" and k: "kind (toks ! i) = TokenKind_Identifier"
    and stop: "findInfix (getKind (stream_at toks (Suc i))) = None \<or>
      (\<exists>t lbp rbp. findInfix (getKind (stream_at toks (Suc i))) = Some (t, lbp, rbp) \<and> lbp < minBp)"
  shows "parsePratt (stream_at toks i) minBp =
    Inr (Reference (val (toks ! i)) (loc (toks ! i)), stream_at toks (Suc i))"
proof -
  have "parsePratt_loop (stream_at toks (Suc i)) (Reference (val (toks ! i)) (loc (toks ! i))) minBp
      = Inr (Reference (val (toks ! i)) (loc (toks ! i)), stream_at toks (Suc i))"
    using stop by (auto intro: parsePratt_loop_none parsePratt_loop_low)
  with parsePratt_Identifier [OF i k] show ?thesis by simp
qed

lemma parsePratt_loop_infix:
  assumes i: "i < length toks" and k: "kind (toks ! i) = InfixToken_kind t"
    and bp: "minBp \<le> lbp_of t"
    and r: "parsePratt (stream_at toks (Suc i)) (rbp_of t) = Inr (right, s1)"
  shows "parsePratt_loop (stream_at toks i) left minBp =
    parsePratt_loop s1 (Binary (binaryMode t) left right (loc (toks ! i))) minBp"
proof -
  have f: "findInfix (getKind (stream_at toks i)) = Some (t, lbp_of t, rbp_of t)"
    using i k by (simp add: getKind_stream_at findInfix_kind)
  have n: "\<not> lbp_of t < minBp" using bp by simp
  have r': "parsePratt (nextToken (stream_at toks i)) (rbp_of t) = Inr (right, s1)"
    using r i by (simp only: nextToken_stream_at)
  show ?thesis
    using parsePratt_loop_step [OF f n r', of left] i by (simp only: getToken_stream_at)
qed

lemma parsePratt_loop_end:
  "length toks \<le> i \<Longrightarrow> parsePratt_loop (stream_at toks i) left minBp = Inr (left, stream_at toks i)"
  by (rule parsePratt_loop_none) (simp add: getKind_stream_at_end findInfix_EOF)

lemma stop_at_end:
  "length toks \<le> i \<Longrightarrow> findInfix (getKind (stream_at toks i)) = None"
  by (simp add: getKind_stream_at_end findInfix_EOF)

lemma stop_at_lower:
  "i < length toks \<Longrightarrow> kind (toks ! i) = InfixToken_kind t \<Longrightarrow> lbp_of t < minBp \<Longrightarrow>
   \<exists>t' lbp rbp. findInfix (getKind (stream_at toks i)) = Some (t', lbp, rbp) \<and> lbp < minBp"
  by (simp add: getKind_stream_at findInfix_kind)

text \<open>
  The two groupings of \<^verbatim>\<open>a OP b OP' c\<close>, and the grouping of \<^verbatim>\<open>U a OP b\<close>, for
  identifier tokens \<^verbatim>\<open>a\<close>, \<^verbatim>\<open>b\<close>, \<^verbatim>\<open>c\<close> with any payload and location.
\<close>

lemma group_left:
  assumes a: "kind a = TokenKind_Identifier" and b: "kind b = TokenKind_Identifier"
    and c: "kind c = TokenKind_Identifier"
    and o1: "kind o1 = InfixToken_kind OP1" and o2: "kind o2 = InfixToken_kind OP2"
    and le: "lbp_of OP2 \<le> lbp_of OP1"
  shows "parseExpr (TokenStream_new [a, o1, b, o2, c]) =
      Inr (Binary (binaryMode OP2)
             (Binary (binaryMode OP1) (Reference (val a) (loc a)) (Reference (val b) (loc b)) (loc o1))
             (Reference (val c) (loc c)) (loc o2),
           \<lparr>source = [a, o1, b, o2, c], index = 5, token = EOF_TOKEN\<rparr>)"
proof -
  let ?toks = "[a, o1, b, o2, c]"
  let ?A = "Reference (val a) (loc a)" and ?B = "Reference (val b) (loc b)"
    and ?C = "Reference (val c) (loc c)"
  have pb: "parsePratt (stream_at ?toks 2) (rbp_of OP1) = Inr (?B, stream_at ?toks 3)"
    using parsePratt_operand [of 2 ?toks "rbp_of OP1"] stop_at_lower [of 3 ?toks OP2 "rbp_of OP1"]
      b o2 le
    by (simp add: rbp_of_lbp_of eval_nat_numeral)
  have pc: "parsePratt (stream_at ?toks 4) (rbp_of OP2) = Inr (?C, stream_at ?toks 5)"
    using parsePratt_operand [of 4 ?toks "rbp_of OP2"] stop_at_end [of ?toks 5] c
    by (simp add: eval_nat_numeral)
  have "parseExpr (TokenStream_new ?toks) = parsePratt (stream_at ?toks 0) 0"
    by (simp only: parseExpr.simps TokenStream_new_stream_at)
  also have "\<dots> = parsePratt_loop (stream_at ?toks 1) ?A 0"
    using parsePratt_Identifier [of 0 ?toks 0] a by simp
  also have "\<dots> = parsePratt_loop (stream_at ?toks 3) (Binary (binaryMode OP1) ?A ?B (loc o1)) 0"
    using parsePratt_loop_infix [of 1 ?toks OP1 0 ?B "stream_at ?toks 3" ?A] o1 pb
    by (simp add: eval_nat_numeral)
  also have "\<dots> = parsePratt_loop (stream_at ?toks 5)
      (Binary (binaryMode OP2) (Binary (binaryMode OP1) ?A ?B (loc o1)) ?C (loc o2)) 0"
    using parsePratt_loop_infix [of 3 ?toks OP2 0 ?C "stream_at ?toks 5"] o2 pc
    by (simp add: eval_nat_numeral)
  also have "\<dots> = Inr (Binary (binaryMode OP2) (Binary (binaryMode OP1) ?A ?B (loc o1)) ?C (loc o2),
      stream_at ?toks 5)"
    by (rule parsePratt_loop_end) simp
  finally show ?thesis by (simp add: stream_at_end)
qed


lemma prefix_then_infix:
  assumes u: "kind u = PrefixToken_kind U" and a: "kind a = TokenKind_Identifier"
    and o1: "kind o1 = InfixToken_kind OP" and b: "kind b = TokenKind_Identifier"
  shows "parseExpr (TokenStream_new [u, a, o1, b]) =
      Inr (Binary (binaryMode OP)
             (Unary (unaryMode U) (Reference (val a) (loc a)) (loc u))
             (Reference (val b) (loc b)) (loc o1),
           \<lparr>source = [u, a, o1, b], index = 4, token = EOF_TOKEN\<rparr>)"
proof -
  let ?toks = "[u, a, o1, b]"
  let ?A = "Reference (val a) (loc a)" and ?B = "Reference (val b) (loc b)"
  have lt: "lbp_of OP < bp_of U" using lbp_of_le [of OP] by (simp add: bp_of_80)
  have pa: "parsePratt (stream_at ?toks 1) (bp_of U) = Inr (?A, stream_at ?toks 2)"
    using parsePratt_operand [of 1 ?toks "bp_of U"] stop_at_lower [of 2 ?toks OP "bp_of U"] a o1 lt
    by (simp add: eval_nat_numeral)
  have pb: "parsePratt (stream_at ?toks 3) (rbp_of OP) = Inr (?B, stream_at ?toks 4)"
    using parsePratt_operand [of 3 ?toks "rbp_of OP"] stop_at_end [of ?toks 4] b
    by (simp add: eval_nat_numeral)
  have f: "findPrefix (getKind (stream_at ?toks 0)) = Some (U, bp_of U)"
    using u by (simp add: getKind_stream_at findPrefix_kind)
  have n: "nextToken (stream_at ?toks 0) = stream_at ?toks 1"
    using nextToken_stream_at [of 0 ?toks] by simp
  have "parseExpr (TokenStream_new ?toks) = parsePratt (stream_at ?toks 0) 0"
    by (simp only: parseExpr.simps TokenStream_new_stream_at)
  also have "\<dots> = parsePratt_loop (stream_at ?toks 2) (Unary (unaryMode U) ?A (loc u)) 0"
    using parsePratt_prefix [OF f pa [folded n], of 0] by (simp add: getToken_stream_at)
  also have "\<dots> = parsePratt_loop (stream_at ?toks 4)
      (Binary (binaryMode OP) (Unary (unaryMode U) ?A (loc u)) ?B (loc o1)) 0"
    using parsePratt_loop_infix [of 2 ?toks OP 0 ?B "stream_at ?toks 4"] o1 pb
    by (simp add: eval_nat_numeral)
  also have "\<dots> = Inr (Binary (binaryMode OP) (Unary (unaryMode U) ?A (loc u)) ?B (loc o1),
      stream_at ?toks 4)"
    by (rule parsePratt_loop_end) simp
  finally show ?thesis by (simp add: stream_at_end)
qed



text \<open>
  The operator tokens and the mode of the node each one yields, written out: a token
  kind paired with a mode in one of the two lists below is the kind of an entry of the
  table, and the mode is the one the \<^verbatim>\<open>switch\<close> of the parser assigns for it.
\<close>

lemma infix_mode_cases:
  assumes "(k, m) \<in> set
     [(TokenKind_Asterisk, BinaryMode_mul), (TokenKind_Slash, BinaryMode_div),
      (TokenKind_Percent, BinaryMode_rem), (TokenKind_Plus, BinaryMode_add),
      (TokenKind_Minus, BinaryMode_sub), (TokenKind_Lt, BinaryMode_lt),
      (TokenKind_Lte, BinaryMode_lte), (TokenKind_Gt, BinaryMode_gt),
      (TokenKind_Gte, BinaryMode_gte), (TokenKind_Eq2, BinaryMode_eq),
      (TokenKind_NotEq, BinaryMode_neq), (TokenKind_And2, BinaryMode_and),
      (TokenKind_Or2, BinaryMode_or)]"
  obtains OP where "k = InfixToken_kind OP" and "m = binaryMode OP"
proof -
  from assms have "\<exists>OP. k = InfixToken_kind OP \<and> m = binaryMode OP"
    by (auto intro: exI [of _ InfixToken_Asterisk] exI [of _ InfixToken_Slash]
        exI [of _ InfixToken_Percent] exI [of _ InfixToken_Plus] exI [of _ InfixToken_Minus]
        exI [of _ InfixToken_Lt] exI [of _ InfixToken_Lte] exI [of _ InfixToken_Gt]
        exI [of _ InfixToken_Gte] exI [of _ InfixToken_Eq2] exI [of _ InfixToken_NotEq]
        exI [of _ InfixToken_And2] exI [of _ InfixToken_Or2])
  then show ?thesis using that by blast
qed

lemma prefix_mode_cases:
  assumes "(k, m) \<in> set
     [(TokenKind_Not, UnaryMode_not), (TokenKind_Plus, UnaryMode_plus),
      (TokenKind_Minus, UnaryMode_minus)]"
  obtains U where "k = PrefixToken_kind U" and "m = unaryMode U"
proof -
  from assms have "\<exists>U. k = PrefixToken_kind U \<and> m = unaryMode U"
    by (auto intro: exI [of _ PrefixToken_Not] exI [of _ PrefixToken_Plus]
        exI [of _ PrefixToken_Minus])
  then show ?thesis using that by blast
qed

text \<open>
  C2. Every infix operator of the table is left-associative. For each of the thirteen
  infix operator tokens, listed with the mode of its node (\<^verbatim>\<open>*\<close> mul, \<^verbatim>\<open>/\<close> div,
  \<^verbatim>\<open>%\<close> rem, \<^verbatim>\<open>+\<close> add, \<^verbatim>\<open>-\<close> sub, \<^verbatim>\<open><\<close> lt, \<^verbatim>\<open><=\<close> lte, \<^verbatim>\<open>>\<close> gt,
  \<^verbatim>\<open>>=\<close> gte, \<^verbatim>\<open>==\<close> eq, \<^verbatim>\<open>!=\<close> neq, \<^verbatim>\<open>&&\<close> and, \<^verbatim>\<open>||\<close> or), and all
  identifier tokens \<^verbatim>\<open>a\<close>, \<^verbatim>\<open>b\<close>, \<^verbatim>\<open>c\<close>: parsing the expression \<^verbatim>\<open>a OP b OP c\<close>
  returns the tree \<open>Binary(OP, Binary(OP, a, b), c)\<close>, both nodes with the mode of
  \<open>OP\<close>, and the tree returned is not \<open>Binary(OP, a, Binary(OP, b, c))\<close>, whatever
  locations the two nodes of that tree carry.
\<close>

theorem left_associative:
  assumes "(k, m) \<in> set
      [(TokenKind_Asterisk, BinaryMode_mul), (TokenKind_Slash, BinaryMode_div),
       (TokenKind_Percent, BinaryMode_rem), (TokenKind_Plus, BinaryMode_add),
       (TokenKind_Minus, BinaryMode_sub), (TokenKind_Lt, BinaryMode_lt),
       (TokenKind_Lte, BinaryMode_lte), (TokenKind_Gt, BinaryMode_gt),
       (TokenKind_Gte, BinaryMode_gte), (TokenKind_Eq2, BinaryMode_eq),
       (TokenKind_NotEq, BinaryMode_neq), (TokenKind_And2, BinaryMode_and),
       (TokenKind_Or2, BinaryMode_or)]"
    and "kind a = TokenKind_Identifier" and "kind b = TokenKind_Identifier"
    and "kind c = TokenKind_Identifier"
    and "kind o1 = k" and "kind o2 = k"
  shows "parseExpr (TokenStream_new [a, o1, b, o2, c]) =
      Inr (Binary m
             (Binary m (Reference (val a) (loc a)) (Reference (val b) (loc b)) (loc o1))
             (Reference (val c) (loc c)) (loc o2),
           \<lparr>source = [a, o1, b, o2, c], index = 5, token = EOF_TOKEN\<rparr>) \<and>
    (\<forall>l1 l2 s'. parseExpr (TokenStream_new [a, o1, b, o2, c]) \<noteq>
      Inr (Binary m
             (Reference (val a) (loc a))
             (Binary m (Reference (val b) (loc b)) (Reference (val c) (loc c)) l1)
             l2, s'))"
proof -
  from assms(1) obtain OP where OP: "k = InfixToken_kind OP" "m = binaryMode OP"
    by (rule infix_mode_cases)
  have "parseExpr (TokenStream_new [a, o1, b, o2, c]) =
      Inr (Binary (binaryMode OP)
             (Binary (binaryMode OP) (Reference (val a) (loc a)) (Reference (val b) (loc b)) (loc o1))
             (Reference (val c) (loc c)) (loc o2),
           \<lparr>source = [a, o1, b, o2, c], index = 5, token = EOF_TOKEN\<rparr>)"
    using assms(2-) OP(1) by (intro group_left) simp_all
  then show ?thesis by (simp add: OP(2))
qed

text \<open>\<^verbatim>\<open>a - b - c\<close> is \<^verbatim>\<open>(a - b) - c\<close>, and \<^verbatim>\<open>a && b && c\<close> is \<^verbatim>\<open>(a && b) && c\<close>.\<close>

theorem left_associative_witness:
  "parseExpr (TokenStream_new
       [ident ''a'' 1, punct TokenKind_Minus 3, ident ''b'' 5, punct TokenKind_Minus 7,
        ident ''c'' 9]) =
     Inr (Binary BinaryMode_sub
            (Binary BinaryMode_sub
               (Reference (Some ''a'') \<lparr>line = 1, column = 1\<rparr>)
               (Reference (Some ''b'') \<lparr>line = 1, column = 5\<rparr>)
               \<lparr>line = 1, column = 3\<rparr>)
            (Reference (Some ''c'') \<lparr>line = 1, column = 9\<rparr>)
            \<lparr>line = 1, column = 7\<rparr>,
          \<lparr>source =
             [ident ''a'' 1, punct TokenKind_Minus 3, ident ''b'' 5, punct TokenKind_Minus 7,
              ident ''c'' 9],
           index = 5, token = EOF_TOKEN\<rparr>) \<and>
   parseExpr (TokenStream_new
       [ident ''a'' 1, punct TokenKind_And2 3, ident ''b'' 6, punct TokenKind_And2 8,
        ident ''c'' 11]) =
     Inr (Binary BinaryMode_and
            (Binary BinaryMode_and
               (Reference (Some ''a'') \<lparr>line = 1, column = 1\<rparr>)
               (Reference (Some ''b'') \<lparr>line = 1, column = 6\<rparr>)
               \<lparr>line = 1, column = 3\<rparr>)
            (Reference (Some ''c'') \<lparr>line = 1, column = 11\<rparr>)
            \<lparr>line = 1, column = 8\<rparr>,
          \<lparr>source =
             [ident ''a'' 1, punct TokenKind_And2 3, ident ''b'' 6, punct TokenKind_And2 8,
              ident ''c'' 11],
           index = 5, token = EOF_TOKEN\<rparr>)"
  using left_associative
    [of TokenKind_Minus BinaryMode_sub "ident ''a'' 1" "ident ''b'' 5" "ident ''c'' 9"
      "punct TokenKind_Minus 3" "punct TokenKind_Minus 7"]
    left_associative
    [of TokenKind_And2 BinaryMode_and "ident ''a'' 1" "ident ''b'' 6" "ident ''c'' 11"
      "punct TokenKind_And2 3" "punct TokenKind_And2 8"]
  by (simp add: ident_def punct_def)

text \<open>
  C3. Every prefix operator binds tighter than every infix operator. For each of the
  three prefix operator tokens, listed with the mode of its node (\<^verbatim>\<open>!\<close> not, \<^verbatim>\<open>+\<close>
  plus, \<^verbatim>\<open>-\<close> minus), each of the thirteen infix operator tokens, listed with the mode
  of its node, and all identifier tokens \<^verbatim>\<open>a\<close>, \<^verbatim>\<open>b\<close>: parsing the expression
  \<^verbatim>\<open>U a OP b\<close> returns the tree \<open>Binary(OP, Unary(U, a), b)\<close>, the unary node with the
  mode of \<open>U\<close> and the binary node with the mode of \<open>OP\<close>, and consumes all four
  tokens.
\<close>

theorem unary_binds_tighter:
  assumes "(ku, mu) \<in> set
      [(TokenKind_Not, UnaryMode_not), (TokenKind_Plus, UnaryMode_plus),
       (TokenKind_Minus, UnaryMode_minus)]"
    and "(ko, mo) \<in> set
      [(TokenKind_Asterisk, BinaryMode_mul), (TokenKind_Slash, BinaryMode_div),
       (TokenKind_Percent, BinaryMode_rem), (TokenKind_Plus, BinaryMode_add),
       (TokenKind_Minus, BinaryMode_sub), (TokenKind_Lt, BinaryMode_lt),
       (TokenKind_Lte, BinaryMode_lte), (TokenKind_Gt, BinaryMode_gt),
       (TokenKind_Gte, BinaryMode_gte), (TokenKind_Eq2, BinaryMode_eq),
       (TokenKind_NotEq, BinaryMode_neq), (TokenKind_And2, BinaryMode_and),
       (TokenKind_Or2, BinaryMode_or)]"
    and "kind u = ku" and "kind a = TokenKind_Identifier"
    and "kind o1 = ko" and "kind b = TokenKind_Identifier"
  shows "parseExpr (TokenStream_new [u, a, o1, b]) =
      Inr (Binary mo
             (Unary mu (Reference (val a) (loc a)) (loc u))
             (Reference (val b) (loc b)) (loc o1),
           \<lparr>source = [u, a, o1, b], index = 4, token = EOF_TOKEN\<rparr>)"
proof -
  from assms(1) obtain U where U: "ku = PrefixToken_kind U" "mu = unaryMode U"
    by (rule prefix_mode_cases)
  from assms(2) obtain OP where OP: "ko = InfixToken_kind OP" "mo = binaryMode OP"
    by (rule infix_mode_cases)
  have "parseExpr (TokenStream_new [u, a, o1, b]) =
      Inr (Binary (binaryMode OP)
             (Unary (unaryMode U) (Reference (val a) (loc a)) (loc u))
             (Reference (val b) (loc b)) (loc o1),
           \<lparr>source = [u, a, o1, b], index = 4, token = EOF_TOKEN\<rparr>)"
    using assms(3-) U(1) OP(1) by (intro prefix_then_infix) simp_all
  then show ?thesis by (simp add: U(2) OP(2))
qed

text \<open>\<^verbatim>\<open>-a * b\<close> is \<^verbatim>\<open>(-a) * b\<close>, and \<^verbatim>\<open>!a || b\<close> is \<^verbatim>\<open>(!a) || b\<close>.\<close>

theorem unary_binds_tighter_witness:
  "parseExpr (TokenStream_new
       [punct TokenKind_Minus 1, ident ''a'' 2, punct TokenKind_Asterisk 4, ident ''b'' 6]) =
     Inr (Binary BinaryMode_mul
            (Unary UnaryMode_minus
               (Reference (Some ''a'') \<lparr>line = 1, column = 2\<rparr>)
               \<lparr>line = 1, column = 1\<rparr>)
            (Reference (Some ''b'') \<lparr>line = 1, column = 6\<rparr>)
            \<lparr>line = 1, column = 4\<rparr>,
          \<lparr>source =
             [punct TokenKind_Minus 1, ident ''a'' 2, punct TokenKind_Asterisk 4, ident ''b'' 6],
           index = 4, token = EOF_TOKEN\<rparr>) \<and>
   parseExpr (TokenStream_new
       [punct TokenKind_Not 1, ident ''a'' 2, punct TokenKind_Or2 4, ident ''b'' 7]) =
     Inr (Binary BinaryMode_or
            (Unary UnaryMode_not
               (Reference (Some ''a'') \<lparr>line = 1, column = 2\<rparr>)
               \<lparr>line = 1, column = 1\<rparr>)
            (Reference (Some ''b'') \<lparr>line = 1, column = 7\<rparr>)
            \<lparr>line = 1, column = 4\<rparr>,
          \<lparr>source =
             [punct TokenKind_Not 1, ident ''a'' 2, punct TokenKind_Or2 4, ident ''b'' 7],
           index = 4, token = EOF_TOKEN\<rparr>)"
  using unary_binds_tighter
    [of TokenKind_Minus UnaryMode_minus TokenKind_Asterisk BinaryMode_mul
      "punct TokenKind_Minus 1" "ident ''a'' 2" "punct TokenKind_Asterisk 4" "ident ''b'' 6"]
    unary_binds_tighter
    [of TokenKind_Not UnaryMode_not TokenKind_Or2 BinaryMode_or
      "punct TokenKind_Not 1" "ident ''a'' 2" "punct TokenKind_Or2 4" "ident ''b'' 7"]
  by (simp add: ident_def punct_def)

section \<open>Properties of the top level\<close>

text \<open>The loop returns only from a state whose current token the loop handles.\<close>

lemma parse_loop_returns:
  "parse_loop s decls = Some y \<Longrightarrow>
   getKind s = TokenKind_EOF \<or> getKind s = TokenKind_Fn \<or> getKind s = TokenKind_Var"
  by (erule parse_loop.raw_induct [rotated]) (auto split: if_splits)

lemma parse_loop_diverges:
  "getKind s \<noteq> TokenKind_EOF \<Longrightarrow> getKind s \<noteq> TokenKind_Fn \<Longrightarrow> getKind s \<noteq> TokenKind_Var \<Longrightarrow>
   parse_loop s decls = None"
  using parse_loop_returns [of s decls] by (cases "parse_loop s decls") auto

text \<open>
  C4 says that \<open>parse\<close> returns on every token sequence, skipping a top-level token
  that is neither \<^verbatim>\<open>fn\<close> nor \<^verbatim>\<open>var\<close>. On the sequence of the one token \<^verbatim>\<open>;\<close> the
  loop of \<open>parse\<close> never moves the cursor and never returns.
\<close>

theorem parse_unknown_token_never_returns:
  "parse [punct TokenKind_SemiColon 1] = None"
  unfolding parse_def
  by (rule parse_loop_diverges)
    (simp_all add: TokenStream_new_def load_def eof_def getKind_def getToken_def punct_def)

text \<open>
  C5 says that every failure of the parser is a syntax error carrying a message, the
  kind of the unexpected token and its location. On the tokens of \<^verbatim>\<open>var x = ;\<close> the
  atom production throws a plain \<open>Error\<close>, which carries the message only.
\<close>

theorem parse_atom_error_has_no_location:
  "parse [punct TokenKind_Var 1, ident ''x'' 5, punct TokenKind_Eq 7, punct TokenKind_SemiColon 9]
   = Some (Inl (Error ''unexpected token: SemiColon''))"
  by (simp add: parse_def parse_loop.simps parseVariableDecl_def TokenStream_new_def load_def
      eof_def getKind_def getToken_def nextWith_def expect_def nextToken_def findPrefix_def
      operators_def ident_def punct_def)

text \<open>
  C6 says that the tokens of \<^verbatim>\<open>fn add(a, b) { var x = a + b; }\<close> parse to one function
  declaration. The name and the parameters are consumed, then the first step of the
  body reaches the stub \<open>parseStep\<close>, and \<open>parse\<close> throws \<open>Error\<close> with the message
  \<^verbatim>\<open>todo\<close>.
\<close>

theorem parse_fn_add_throws_todo:
  "parse [punct TokenKind_Fn 1, ident ''add'' 4, punct TokenKind_OpenParen 7, ident ''a'' 8,
          punct TokenKind_Comma 9, ident ''b'' 11, punct TokenKind_CloseParen 12,
          punct TokenKind_OpenBrace 14, punct TokenKind_Var 16, ident ''x'' 20,
          punct TokenKind_Eq 22, ident ''a'' 24, punct TokenKind_Plus 26, ident ''b'' 28,
          punct TokenKind_SemiColon 29, punct TokenKind_CloseBrace 31]
   = Some (Inl (Error ''todo''))"
  by (simp add: parse_def parse_loop.simps parseFunctionDecl_def parseParams_def parseBlock_def
      parseStep_def TokenStream_new_def load_def eof_def getKind_def getToken_def nextWith_def
      expect_def nextToken_def ident_def punct_def)

end
